theory Spec2Isabelle
  imports Complex_Main "HOL-Library.Sublist"
begin

section \<open>Strings\<close>

text \<open>
  Python strings are modelled as \<^typ>\<open>string\<close>. The three string operations the analysed
  code uses are \<open>str.lower\<close>, \<open>str.strip\<close> and the substring test \<open>w in t\<close>. Case mapping
  and white space are modelled on ASCII: \<open>lower\<close> maps \<open>A\<close>..\<open>Z\<close> to \<open>a\<close>..\<open>z\<close> and leaves every
  other character alone, and the white space characters are those below 128 for which
  \<open>str.isspace\<close> holds (9..13, 28..32).
\<close>

definition lower_char :: "char \<Rightarrow> char" where
  "lower_char c =
     (case map_of (zip ''ABCDEFGHIJKLMNOPQRSTUVWXYZ'' ''abcdefghijklmnopqrstuvwxyz'') c of
        Some d \<Rightarrow> d
      | None \<Rightarrow> c)"

definition lower :: "string \<Rightarrow> string" where
  "lower s = map lower_char s"

definition is_space :: "char \<Rightarrow> bool" where
  "is_space c \<longleftrightarrow>
     c \<in> set [CHR 0x09, CHR 0x0A, CHR 0x0B, CHR 0x0C, CHR 0x0D,
               CHR 0x1C, CHR 0x1D, CHR 0x1E, CHR 0x1F, CHR 0x20]"

definition strip :: "string \<Rightarrow> string" where
  "strip s = rev (dropWhile is_space (rev (dropWhile is_space s)))"

text \<open>\<open>starts_with w t\<close>: the text \<open>t\<close> begins with the word \<open>w\<close>.\<close>

fun starts_with :: "string \<Rightarrow> string \<Rightarrow> bool" where
  "starts_with [] t = True"
| "starts_with (a # w) [] = False"
| "starts_with (a # w) (c # t) = (a = c \<and> starts_with w t)"

text \<open>\<open>str_in w t\<close> is Python's \<open>w in t\<close> on strings: \<open>w\<close> occurs in \<open>t\<close> at some position.\<close>

fun str_in :: "string \<Rightarrow> string \<Rightarrow> bool" where
  "str_in w [] = (w = [])"
| "str_in w (c # t) = (starts_with w (c # t) \<or> str_in w t)"

section \<open>Sentiment analyzer\<close>

record SentimentResult =
  sr_text :: string
  sr_label :: string
  sr_score :: rat
  sr_rating :: int

record BrandSentiment =
  bs_brand :: string
  bs_statements :: "SentimentResult list"
  bs_avg_score :: rat
  bs_avg_rating :: rat
  bs_positive_count :: int
  bs_negative_count :: int
  bs_neutral_count :: int

text \<open>
  The keyword sets of \<open>SentimentAnalyzer.__init__\<close>. Scores are Python floats; they are
  modelled as exact rationals, the literals \<open>0.5\<close>, \<open>0.6\<close>, ... as the fractions they denote.
\<close>

definition positive_keywords :: "string set" where
  "positive_keywords =
     {''excellent'', ''great'', ''good'', ''best'', ''outstanding'', ''impressive'',
      ''recommend'', ''love'', ''enjoy'', ''smooth'', ''delicious'', ''rich'',
      ''high quality'', ''solid'', ''versatile'', ''convenient'', ''effective''}"

definition negative_keywords :: "string set" where
  "negative_keywords =
     {''bad'', ''poor'', ''worst'', ''terrible'', ''disappointing'', ''awful'',
      ''expensive'', ''overpriced'', ''clumpy'', ''gritty'', ''artificial'',
      ''aftertaste'', ''digestive'', ''discomfort'', ''drawback'', ''downside''}"

definition neutral_keywords :: "string set" where
  "neutral_keywords =
     {''offers'', ''contains'', ''delivers'', ''provides'', ''includes'',
      ''available'', ''priced'', ''costs'', ''flavors'', ''serving''}"

text \<open>\<open>sum(1 for word in keywords if word in text_lower)\<close>\<close>

definition count_present :: "string set \<Rightarrow> string \<Rightarrow> int" where
  "count_present keywords text_lower = (\<Sum>word \<in> {word \<in> keywords. str_in word text_lower}. 1)"

definition score_to_rating :: "rat \<Rightarrow> int" where
  "score_to_rating score =
     (if score \<ge> 8 / 10 then 5
      else if score \<ge> 6 / 10 then 4
      else if score \<ge> 4 / 10 then 3
      else if score \<ge> 2 / 10 then 2
      else 1)"

definition analyze_statement :: "string \<Rightarrow> SentimentResult" where
  "analyze_statement t =
     (let text_lower = lower t;
          positive_count = count_present positive_keywords text_lower;
          negative_count = count_present negative_keywords text_lower;
          neutral_count = count_present neutral_keywords text_lower;
          total_keywords = positive_count + negative_count + neutral_count;
          score = (if total_keywords = 0 then 5 / 10
                   else (of_int (positive_count - negative_count) / of_int total_keywords + 1) / 2);
          label = (if score > 6 / 10 then ''POSITIVE''
                   else if score < 4 / 10 then ''NEGATIVE''
                   else ''NEUTRAL'')
      in \<lparr>sr_text = t, sr_label = label, sr_score = score, sr_rating = score_to_rating score\<rparr>)"

text \<open>The loop of \<open>analyze_brand_statements\<close> that fills \<open>sentiment_results\<close>.\<close>

fun analyze_loop :: "string list \<Rightarrow> SentimentResult list \<Rightarrow> SentimentResult list" where
  "analyze_loop [] sentiment_results = sentiment_results"
| "analyze_loop (statement # statements) sentiment_results =
     analyze_loop statements (sentiment_results @ [analyze_statement statement])"

text \<open>\<open>sum(1 for r in sentiment_results if r.label == l)\<close>\<close>

definition count_label :: "string \<Rightarrow> SentimentResult list \<Rightarrow> int" where
  "count_label l rs = sum_list (map (\<lambda>r. 1) (filter (\<lambda>r. sr_label r = l) rs))"

definition analyze_brand_statements :: "string \<Rightarrow> string list \<Rightarrow> BrandSentiment" where
  "analyze_brand_statements brand statements =
     (let sentiment_results = analyze_loop statements [] in
      if sentiment_results = [] then
        \<lparr>bs_brand = brand, bs_statements = [], bs_avg_score = 0, bs_avg_rating = 0,
         bs_positive_count = 0, bs_negative_count = 0, bs_neutral_count = 0\<rparr>
      else
        \<lparr>bs_brand = brand,
         bs_statements = sentiment_results,
         bs_avg_score = sum_list (map sr_score sentiment_results) / of_nat (length sentiment_results),
         bs_avg_rating =
           of_int (sum_list (map sr_rating sentiment_results)) / of_nat (length sentiment_results),
         bs_positive_count = count_label ''POSITIVE'' sentiment_results,
         bs_negative_count = count_label ''NEGATIVE'' sentiment_results,
         bs_neutral_count = count_label ''NEUTRAL'' sentiment_results\<rparr>)"

text \<open>
  \<open>re.split(r'[.!?]+', text)\<close>: the pieces of the text between the maximal runs of
  sentence terminators, in order; a run at the very start or end leaves an empty piece
  there. \<open>split_from cur s\<close> scans \<open>s\<close> with \<open>cur\<close> the piece read so far.
\<close>

definition is_terminator :: "char \<Rightarrow> bool" where
  "is_terminator c \<longleftrightarrow> c = CHR ''.'' \<or> c = CHR ''!'' \<or> c = CHR ''?''"

function split_from :: "string \<Rightarrow> string \<Rightarrow> string list" where
  "split_from cur [] = [cur]"
| "split_from cur (c # cs) =
     (if is_terminator c then cur # split_from [] (dropWhile is_terminator cs)
      else split_from (cur @ [c]) cs)"
  by pat_completeness auto
termination
  by (relation "measure (\<lambda>(cur, s). length s)") (auto simp: less_Suc_eq_le length_dropWhile_le)

definition re_split :: "string \<Rightarrow> string list" where
  "re_split s = split_from [] s"

text \<open>The loop of \<open>extract_statements_about_brand\<close> over the sentences.\<close>

fun extract_loop :: "string \<Rightarrow> string list \<Rightarrow> string list \<Rightarrow> string list" where
  "extract_loop brand_normalized [] statements = statements"
| "extract_loop brand_normalized (sentence # sentences) statements =
     (let sentence_clean = strip (lower sentence) in
      if str_in brand_normalized sentence_clean
      then extract_loop brand_normalized sentences (statements @ [strip sentence])
      else extract_loop brand_normalized sentences statements)"

definition extract_statements_about_brand :: "string \<Rightarrow> string \<Rightarrow> string list" where
  "extract_statements_about_brand t brand =
     (let brand_normalized = strip (lower brand);
          sentences = re_split t
      in extract_loop brand_normalized sentences [])"

subsection \<open>Rating summary\<close>

text \<open>
  Python's \<open>round(x, ndigits)\<close> rounds to the closest multiple of \<open>10 ^ -ndigits\<close>, a tie
  going to the even choice; here on the exact rational value.
\<close>

definition round_half_even :: "rat \<Rightarrow> int" where
  "round_half_even x =
     (let f = \<lfloor>x\<rfloor>; d = x - of_int f in
      if d < 1 / 2 then f
      else if d > 1 / 2 then f + 1
      else if even f then f else f + 1)"

definition py_round :: "rat \<Rightarrow> nat \<Rightarrow> rat" where
  "py_round x ndigits = of_int (round_half_even (x * 10 ^ ndigits)) / 10 ^ ndigits"

record StatementRow =
  st_text :: string
  st_label :: string
  st_rating :: int

record RatingRow =
  rr_brand :: string
  rr_avg_rating :: rat
  rr_avg_score :: rat
  rr_total_statements :: int
  rr_positive_percentage :: rat
  rr_negative_percentage :: rat
  rr_neutral_percentage :: rat
  rr_statements :: "StatementRow list"

definition create_rating_summary :: "BrandSentiment \<Rightarrow> RatingRow" where
  "create_rating_summary brand_sentiment =
     (let total = int (length (bs_statements brand_sentiment)) in
      if total = 0 then
        \<lparr>rr_brand = bs_brand brand_sentiment, rr_avg_rating = 0, rr_avg_score = 0,
         rr_total_statements = 0, rr_positive_percentage = 0, rr_negative_percentage = 0,
         rr_neutral_percentage = 0, rr_statements = []\<rparr>
      else
        \<lparr>rr_brand = bs_brand brand_sentiment,
         rr_avg_rating = py_round (bs_avg_rating brand_sentiment) 2,
         rr_avg_score = py_round (bs_avg_score brand_sentiment) 3,
         rr_total_statements = total,
         rr_positive_percentage =
           py_round (of_int (bs_positive_count brand_sentiment) / of_int total * 100) 1,
         rr_negative_percentage =
           py_round (of_int (bs_negative_count brand_sentiment) / of_int total * 100) 1,
         rr_neutral_percentage =
           py_round (of_int (bs_neutral_count brand_sentiment) / of_int total * 100) 1,
         rr_statements =
           map (\<lambda>s. \<lparr>st_text = sr_text s, st_label = sr_label s, st_rating = sr_rating s\<rparr>)
             (bs_statements brand_sentiment)\<rparr>)"

section \<open>Analysis engine\<close>

text \<open>
  The per-brand loop of \<open>run_full_analysis\<close>. The brand list comes from the brand
  extractor, a remote service, so it is an argument here; \<open>brand_sentiments\<close> and
  \<open>brand_ratings\<close> are the two lists the loop appends to.
\<close>

fun brand_loop ::
  "string \<Rightarrow> string list \<Rightarrow> BrandSentiment list \<Rightarrow> RatingRow list \<Rightarrow>
   BrandSentiment list \<times> RatingRow list" where
  "brand_loop transcript [] brand_sentiments brand_ratings = (brand_sentiments, brand_ratings)"
| "brand_loop transcript (brand # brands) brand_sentiments brand_ratings =
     (let statements = extract_statements_about_brand transcript brand in
      if statements = [] then
        (let neutral_sentiment =
               \<lparr>bs_brand = brand, bs_statements = [], bs_avg_score = 5 / 10, bs_avg_rating = 3,
                bs_positive_count = 0, bs_negative_count = 0, bs_neutral_count = 0\<rparr>
         in brand_loop transcript brands
              (brand_sentiments @ [neutral_sentiment])
              (brand_ratings @
                 [\<lparr>rr_brand = brand, rr_avg_rating = 3, rr_avg_score = 5 / 10,
                   rr_total_statements = 0, rr_positive_percentage = 0,
                   rr_negative_percentage = 0, rr_neutral_percentage = 0,
                   rr_statements = []\<rparr>]))
      else
        (let sentiment = analyze_brand_statements brand statements;
             rating_summary = create_rating_summary sentiment
         in brand_loop transcript brands
              (brand_sentiments @ [sentiment]) (brand_ratings @ [rating_summary])))"

section \<open>Brand segmenter\<close>

datatype PriceCategory = P_BUDGET | P_MID_RANGE | P_PREMIUM

datatype QualityCategory = Q_BASIC | Q_STANDARD | Q_PREMIUM

record BrandSegment =
  seg_brand :: string
  seg_price_category :: PriceCategory
  seg_quality_category :: QualityCategory
  seg_avg_rating :: rat
  seg_price_per_serving :: "rat option"
  seg_protein_content :: "int option"
  seg_third_party_tested :: bool
  seg_artificial_sweeteners :: bool
  seg_features :: "string list"

text \<open>
  A float that may be \<open>float('inf')\<close>: a rational or plus infinity, ordered as the floats
  are.
\<close>

datatype ext_rat = Fin rat | PosInf

instantiation ext_rat :: linorder
begin

fun less_eq_ext_rat :: "ext_rat \<Rightarrow> ext_rat \<Rightarrow> bool" where
  "less_eq_ext_rat (Fin a) (Fin b) = (a \<le> b)"
| "less_eq_ext_rat x PosInf = True"
| "less_eq_ext_rat PosInf (Fin b) = False"

definition less_ext_rat :: "ext_rat \<Rightarrow> ext_rat \<Rightarrow> bool" where
  "less_ext_rat x y \<longleftrightarrow> x \<le> y \<and> \<not> y \<le> x"

instance
proof
  fix x y z :: ext_rat
  show "(x < y) = (x \<le> y \<and> \<not> y \<le> x)"
    by (rule less_ext_rat_def)
  show "x \<le> x"
    by (cases x) simp_all
  show "x \<le> y \<Longrightarrow> y \<le> z \<Longrightarrow> x \<le> z"
    by (cases x; cases y; cases z) simp_all
  show "x \<le> y \<Longrightarrow> y \<le> x \<Longrightarrow> x = y"
    by (cases x; cases y) simp_all
  show "x \<le> y \<or> y \<le> x"
    by (cases x; cases y) auto
qed

end

text \<open>
  The threshold tables of \<open>BrandSegmenter.__init__\<close>: dictionaries, read in insertion
  order by the two categorisers.
\<close>

definition price_thresholds :: "(PriceCategory \<times> ext_rat) list" where
  "price_thresholds = [(P_BUDGET, Fin (90 / 100)), (P_MID_RANGE, Fin (120 / 100)), (P_PREMIUM, PosInf)]"

definition quality_thresholds :: "(QualityCategory \<times> ext_rat) list" where
  "quality_thresholds = [(Q_BASIC, Fin 4), (Q_STANDARD, Fin (45 / 10)), (Q_PREMIUM, PosInf)]"

text \<open>
  \<open>for category, threshold in thresholds.items(): if value <= threshold: return category\<close>;
  \<open>None\<close> when the loop ends without returning.
\<close>

fun first_below :: "rat \<Rightarrow> ('c \<times> ext_rat) list \<Rightarrow> 'c option" where
  "first_below v [] = None"
| "first_below v ((category, threshold) # items) =
     (if Fin v \<le> threshold then Some category else first_below v items)"

definition categorize_price :: "rat option \<Rightarrow> PriceCategory" where
  "categorize_price price_per_serving =
     (case price_per_serving of
        None \<Rightarrow> P_MID_RANGE
      | Some v \<Rightarrow> (case first_below v price_thresholds of
                     Some category \<Rightarrow> category
                   | None \<Rightarrow> P_PREMIUM))"

definition categorize_quality :: "rat \<Rightarrow> QualityCategory" where
  "categorize_quality avg_rating =
     (case first_below avg_rating quality_thresholds of
        Some category \<Rightarrow> category
      | None \<Rightarrow> Q_PREMIUM)"

section \<open>Insight generator\<close>

record BrandInsight =
  bi_brand :: string
  bi_summary :: string
  bi_strengths :: "string list"
  bi_weaknesses :: "string list"
  bi_recommendations :: "string list"
  bi_key_features :: "string list"
  bi_target_audience :: "string list"

text \<open>\<open>sep.join(parts)\<close>\<close>

fun join :: "string \<Rightarrow> string list \<Rightarrow> string" where
  "join sep [] = []"
| "join sep [part] = part"
| "join sep (part # next_part # parts) = part @ sep @ join sep (next_part # parts)"

text \<open>
  \<open>v and cond(v)\<close> for an optional number \<open>v\<close>, as in
  \<open>segment.price_per_serving and segment.price_per_serving < 1.0\<close>: false when \<open>v\<close> is
  \<open>None\<close> or zero, else the condition.
\<close>

definition and_then :: "'a::zero option \<Rightarrow> ('a \<Rightarrow> bool) \<Rightarrow> bool" where
  "and_then v cond = (case v of None \<Rightarrow> False | Some x \<Rightarrow> x \<noteq> 0 \<and> cond x)"

text \<open>
  The rule blocks take the optional sentiment data as the source does, and like the
  source never read it.
\<close>

definition generate_summary :: "BrandSegment \<Rightarrow> BrandSentiment option \<Rightarrow> string" where
  "generate_summary segment sentiment_data =
     (let brand = seg_brand segment;
          rating = seg_avg_rating segment;
          summary_parts =
            [if seg_quality_category segment = Q_PREMIUM then brand @ '' is a premium protein powder''
             else if seg_quality_category segment = Q_STANDARD
               then brand @ '' is a solid, reliable protein powder''
             else brand @ '' is a basic protein powder''] @
            [if rating \<ge> 45 / 10 then ''with excellent customer ratings''
             else if rating \<ge> 4 then ''with good customer ratings''
             else ''with average customer ratings''] @
            [if seg_price_category segment = P_BUDGET then ''at an affordable price point''
             else if seg_price_category segment = P_PREMIUM then ''at a premium price point''
             else ''at a mid-range price point''] @
            (if seg_third_party_tested segment
             then [''and is third-party tested for quality assurance''] else []) @
            (if \<not> seg_artificial_sweeteners segment
             then [''with no artificial sweeteners''] else [])
      in join '' '' summary_parts @ ''.'')"

definition identify_strengths :: "BrandSegment \<Rightarrow> BrandSentiment option \<Rightarrow> string list" where
  "identify_strengths segment sentiment_data =
     (if seg_quality_category segment = Q_PREMIUM then [''Premium quality and performance'']
      else if seg_avg_rating segment \<ge> 45 / 10 then [''High customer satisfaction'']
      else []) @
     (if seg_price_category segment = P_BUDGET then [''Excellent value for money'']
      else if and_then (seg_price_per_serving segment) (\<lambda>price. price < 1)
        then [''Competitive pricing'']
      else []) @
     (if seg_third_party_tested segment then [''Third-party quality testing''] else []) @
     (if \<not> seg_artificial_sweeteners segment then [''Clean ingredient profile''] else []) @
     (if and_then (seg_protein_content segment) (\<lambda>protein. protein \<ge> 25)
      then [''High protein content per serving''] else []) @
     seg_features segment"

definition identify_weaknesses :: "BrandSegment \<Rightarrow> BrandSentiment option \<Rightarrow> string list" where
  "identify_weaknesses segment sentiment_data =
     (if seg_quality_category segment = Q_BASIC then [''Basic quality level''] else []) @
     (if seg_avg_rating segment < 4 then [''Lower customer satisfaction''] else []) @
     (if seg_price_category segment = P_PREMIUM then [''Higher price point''] else []) @
     (if \<not> seg_third_party_tested segment then [''No third-party testing''] else []) @
     (if seg_artificial_sweeteners segment then [''Contains artificial sweeteners''] else []) @
     (if and_then (seg_protein_content segment) (\<lambda>protein. protein < 24)
      then [''Lower protein content compared to competitors''] else [])"

definition generate_recommendations :: "BrandSegment \<Rightarrow> BrandSentiment option \<Rightarrow> string list" where
  "generate_recommendations segment sentiment_data =
     [if seg_quality_category segment = Q_PREMIUM
        then ''Ideal for serious athletes and fitness enthusiasts''
      else if seg_quality_category segment = Q_STANDARD then ''Good choice for regular gym-goers''
      else ''Suitable for beginners or casual users''] @
     (if seg_price_category segment = P_BUDGET then [''Perfect for budget-conscious consumers'']
      else if seg_price_category segment = P_PREMIUM
        then [''Best for those prioritizing quality over cost'']
      else []) @
     (if \<not> seg_artificial_sweeteners segment
      then [''Recommended for those avoiding artificial sweeteners''] else []) @
     (if seg_third_party_tested segment
      then [''Recommended for athletes requiring quality assurance''] else []) @
     (if seg_avg_rating segment \<ge> 45 / 10 then [''Highly recommended based on customer feedback'']
      else if seg_avg_rating segment \<ge> 4 then [''Recommended for most users'']
      else [])"

text \<open>
  The de-duplication loop of \<open>_identify_target_audience\<close>, with its set \<open>seen\<close> and its
  list \<open>unique_audience\<close>.
\<close>

fun unique_loop :: "string list \<Rightarrow> string set \<Rightarrow> string list \<Rightarrow> string list" where
  "unique_loop [] seen unique_audience = unique_audience"
| "unique_loop (item # audience) seen unique_audience =
     (if item \<notin> seen then unique_loop audience (insert item seen) (unique_audience @ [item])
      else unique_loop audience seen unique_audience)"

definition audience_candidates :: "BrandSegment \<Rightarrow> string list" where
  "audience_candidates segment =
     (if seg_quality_category segment = Q_PREMIUM
        then [''Serious athletes'', ''Professional bodybuilders'', ''Fitness enthusiasts'']
      else if seg_quality_category segment = Q_STANDARD
        then [''Regular gym-goers'', ''Fitness enthusiasts'', ''Health-conscious individuals'']
      else [''Beginners'', ''Casual users'', ''Budget-conscious consumers'']) @
     (if seg_price_category segment = P_BUDGET then [''Budget-conscious consumers'']
      else if seg_price_category segment = P_PREMIUM then [''Premium market consumers'']
      else []) @
     (if \<not> seg_artificial_sweeteners segment then [''Health-conscious individuals''] else []) @
     (if seg_third_party_tested segment then [''Competitive athletes''] else [])"

definition identify_target_audience :: "BrandSegment \<Rightarrow> string list" where
  "identify_target_audience segment = unique_loop (audience_candidates segment) {} []"

definition generate_brand_insight :: "BrandSegment \<Rightarrow> BrandSentiment option \<Rightarrow> BrandInsight" where
  "generate_brand_insight segment sentiment_data =
     \<lparr>bi_brand = seg_brand segment,
      bi_summary = generate_summary segment sentiment_data,
      bi_strengths = identify_strengths segment sentiment_data,
      bi_weaknesses = identify_weaknesses segment sentiment_data,
      bi_recommendations = generate_recommendations segment sentiment_data,
      bi_key_features = seg_features segment,
      bi_target_audience = identify_target_audience segment\<rparr>"

subsection \<open>Comparative insights\<close>

text \<open>
  Python's \<open>min(xs, key=f)\<close> and \<open>max(xs, key=f)\<close>: the first element is the candidate,
  and a later element replaces it only when its key is strictly smaller (larger). On an
  empty list both raise \<open>ValueError\<close>, which is \<open>None\<close> here.
\<close>

fun min_from :: "('a \<Rightarrow> 'k::linorder) \<Rightarrow> 'a \<Rightarrow> 'a list \<Rightarrow> 'a" where
  "min_from key best [] = best"
| "min_from key best (x # xs) = min_from key (if key x < key best then x else best) xs"

fun max_from :: "('a \<Rightarrow> 'k::linorder) \<Rightarrow> 'a \<Rightarrow> 'a list \<Rightarrow> 'a" where
  "max_from key best [] = best"
| "max_from key best (x # xs) = max_from key (if key x > key best then x else best) xs"

fun py_min :: "('a \<Rightarrow> 'k::linorder) \<Rightarrow> 'a list \<Rightarrow> 'a option" where
  "py_min key [] = None"
| "py_min key (x # xs) = Some (min_from key x xs)"

fun py_max :: "('a \<Rightarrow> 'k::linorder) \<Rightarrow> 'a list \<Rightarrow> 'a option" where
  "py_max key [] = None"
| "py_max key (x # xs) = Some (max_from key x xs)"

text \<open>
  The sort key \<open>x.price_per_serving or float('inf')\<close>: the price when it is neither
  \<open>None\<close> nor zero, else infinity.
\<close>

definition price_key :: "BrandSegment \<Rightarrow> ext_rat" where
  "price_key x =
     (case seg_price_per_serving x of
        None \<Rightarrow> PosInf
      | Some price \<Rightarrow> if price = 0 then PosInf else Fin price)"

record ComparativeInsights =
  ci_best_value :: "BrandSegment option"
  ci_highest_quality :: "BrandSegment option"
  ci_most_affordable :: "BrandSegment option"
  ci_premium_choice :: "BrandSegment option"
  ci_clean_ingredients :: "string list"
  ci_third_party_tested :: "string list"
  ci_comparison_summary :: string

definition generate_comparison_summary :: "ComparativeInsights \<Rightarrow> string" where
  "generate_comparison_summary insights =
     (let summary_parts =
            (case ci_best_value insights of
               Some s \<Rightarrow> [''For best value, consider '' @ seg_brand s] | None \<Rightarrow> []) @
            (case ci_highest_quality insights of
               Some s \<Rightarrow> [''For highest quality, '' @ seg_brand s @ '' leads the pack'']
             | None \<Rightarrow> []) @
            (case ci_most_affordable insights of
               Some s \<Rightarrow> [seg_brand s @ '' is the most affordable option''] | None \<Rightarrow> []) @
            (case ci_premium_choice insights of
               Some s \<Rightarrow> [''For premium quality, '' @ seg_brand s @ '' is the top choice'']
             | None \<Rightarrow> []) @
            (if ci_clean_ingredients insights \<noteq> []
             then [''Brands with clean ingredients: '' @ join '', '' (ci_clean_ingredients insights)]
             else []) @
            (if ci_third_party_tested insights \<noteq> []
             then [''Third-party tested brands: '' @ join '', '' (ci_third_party_tested insights)]
             else [])
      in join '' '' summary_parts @ ''.'')"

definition generate_comparative_insights :: "BrandSegment list \<Rightarrow> ComparativeInsights" where
  "generate_comparative_insights segments =
     (let insights =
            \<lparr>ci_best_value = None, ci_highest_quality = None, ci_most_affordable = None,
             ci_premium_choice = None, ci_clean_ingredients = [], ci_third_party_tested = [],
             ci_comparison_summary = []\<rparr>
      in if segments = [] then insights
         else
           (let high_quality =
                  filter (\<lambda>s. seg_quality_category s \<in> set [Q_STANDARD, Q_PREMIUM]) segments;
                premium_brands = filter (\<lambda>s. seg_quality_category s = Q_PREMIUM) segments;
                insights = insights
                  \<lparr>ci_best_value :=
                     (if high_quality \<noteq> [] then py_min price_key high_quality else None),
                   ci_highest_quality := py_max seg_avg_rating segments,
                   ci_most_affordable := py_min price_key segments,
                   ci_premium_choice :=
                     (if premium_brands \<noteq> [] then py_max seg_avg_rating premium_brands else None),
                   ci_clean_ingredients :=
                     map seg_brand (filter (\<lambda>s. \<not> seg_artificial_sweeteners s) segments),
                   ci_third_party_tested :=
                     map seg_brand (filter (\<lambda>s. seg_third_party_tested s) segments)\<rparr>
            in insights\<lparr>ci_comparison_summary := generate_comparison_summary insights\<rparr>))"

section \<open>Reference definitions\<close>

text \<open>
  The specification's reading of the per-statement score: the number of keywords of a set
  that occur as substrings of the lower-cased text, and the score computed from the three
  numbers.
\<close>

definition keyword_hits :: "string set \<Rightarrow> string \<Rightarrow> nat" where
  "keyword_hits K t = card {w \<in> K. sublist w (lower t)}"

definition reference_score :: "string \<Rightarrow> rat" where
  "reference_score t =
     (let pos = int (keyword_hits positive_keywords t);
          neg = int (keyword_hits negative_keywords t);
          neu = int (keyword_hits neutral_keywords t);
          total = pos + neg + neu
      in if total = 0 then 1 / 2 else ((of_int (pos - neg) / of_int total) + 1) / 2)"

text \<open>
  Splitting a text on runs of sentence terminators, as a relation between the text and
  its pieces: no piece holds a terminator, two consecutive pieces are separated by a
  non-empty run of terminators, and the run is maximal (what follows it does not start
  with a terminator).
\<close>

inductive split_on_runs :: "string \<Rightarrow> string list \<Rightarrow> bool" where
  last_piece: "\<forall>c \<in> set p. \<not> is_terminator c \<Longrightarrow> split_on_runs p [p]"
| piece_run:
    "\<forall>c \<in> set p. \<not> is_terminator c \<Longrightarrow> run \<noteq> [] \<Longrightarrow> \<forall>c \<in> set run. is_terminator c \<Longrightarrow>
     rest = [] \<or> \<not> is_terminator (hd rest) \<Longrightarrow> split_on_runs rest ps \<Longrightarrow>
     split_on_runs (p @ run @ rest) (p # ps)"

text \<open>
  De-duplication that preserves first-seen order: keep an element and drop its later
  occurrences.
\<close>

fun dedup_first :: "'a list \<Rightarrow> 'a list" where
  "dedup_first [] = []"
| "dedup_first (x # xs) = x # dedup_first (removeAll x xs)"


section \<open>Properties of the sentiment analyzer\<close>

lemma starts_with_prefix: "starts_with w t = prefix w t"
  by (induction w t rule: starts_with.induct) auto

lemma str_in_sublist: "str_in w t = sublist w t"
  by (induction t) (auto simp: starts_with_prefix sublist_Cons_right)

lemma count_present_card: "count_present K t = int (card {w \<in> K. sublist w t})"
  by (simp add: count_present_def str_in_sublist)

lemma count_present_nonneg: "0 \<le> count_present K t"
  by (simp add: count_present_card)

lemma count_present_hits: "count_present K (lower t) = int (keyword_hits K t)"
  by (simp add: count_present_card keyword_hits_def)

lemma score_formula_bounds:
  fixes p n u :: int
  assumes "0 \<le> p" "0 \<le> n" "0 \<le> u" "p + n + u \<noteq> 0"
  shows "0 \<le> (of_int (p - n) / of_int (p + n + u) + 1) / (2::rat)"
    and "(of_int (p - n) / of_int (p + n + u) + 1) / (2::rat) \<le> 1"
proof -
  from assms have pos: "(0::rat) < of_int (p + n + u)" by simp
  have lo: "- (of_int (p + n + u) :: rat) \<le> of_int (p - n)"
    using assms by (simp flip: of_int_minus)
  have hi: "(of_int (p - n) :: rat) \<le> of_int (p + n + u)"
    using assms by simp
  from lo pos have "-1 \<le> (of_int (p - n) :: rat) / of_int (p + n + u)"
    by (simp add: le_divide_eq)
  moreover from hi pos have "(of_int (p - n) :: rat) / of_int (p + n + u) \<le> 1"
    by (simp add: divide_le_eq)
  ultimately show "0 \<le> (of_int (p - n) / of_int (p + n + u) + 1) / (2::rat)"
    and "(of_int (p - n) / of_int (p + n + u) + 1) / (2::rat) \<le> 1"
    by simp_all
qed

lemma score_range: "0 \<le> sr_score (analyze_statement t) \<and> sr_score (analyze_statement t) \<le> 1"
  using score_formula_bounds[OF count_present_nonneg count_present_nonneg count_present_nonneg,
      of positive_keywords "lower t" negative_keywords "lower t" neutral_keywords "lower t"]
  by (simp add: analyze_statement_def Let_def)

lemma score_to_rating_range: "score_to_rating s \<in> {1, 2, 3, 4, 5}"
  by (simp add: score_to_rating_def)

lemma sr_fields:
  "sr_text (analyze_statement t) = t"
  "sr_rating (analyze_statement t) = score_to_rating (sr_score (analyze_statement t))"
  "sr_label (analyze_statement t) =
     (if sr_score (analyze_statement t) > 6 / 10 then ''POSITIVE''
      else if sr_score (analyze_statement t) < 4 / 10 then ''NEGATIVE'' else ''NEUTRAL'')"
  by (simp_all add: analyze_statement_def Let_def)

lemma sr_score_reference: "sr_score (analyze_statement t) = reference_score t"
  by (simp add: analyze_statement_def reference_score_def Let_def count_present_hits)

text \<open>
  C1. For every text, \<open>analyze_statement\<close> computes the reference definition: the score is
  the reference score (0.5 without keywords, else \<open>((pos - neg) / total + 1) / 2\<close> over the
  substring counts); the label is POSITIVE iff the score is above 0.6, NEGATIVE iff it is
  below 0.4 and NEUTRAL iff it lies in the closed band from 0.4 to 0.6; the rating is read
  off the descending table 0.8, 0.6, 0.4, 0.2.
\<close>

theorem analyze_statement_reference:
  "sr_text (analyze_statement t) = t \<and>
   sr_score (analyze_statement t) = reference_score t \<and>
   (sr_label (analyze_statement t) = ''POSITIVE'' \<longleftrightarrow> reference_score t > 6 / 10) \<and>
   (sr_label (analyze_statement t) = ''NEGATIVE'' \<longleftrightarrow> reference_score t < 4 / 10) \<and>
   (sr_label (analyze_statement t) = ''NEUTRAL'' \<longleftrightarrow>
      4 / 10 \<le> reference_score t \<and> reference_score t \<le> 6 / 10) \<and>
   sr_rating (analyze_statement t) =
     (if reference_score t \<ge> 8 / 10 then 5
      else if reference_score t \<ge> 6 / 10 then 4
      else if reference_score t \<ge> 4 / 10 then 3
      else if reference_score t \<ge> 2 / 10 then 2
      else 1)"
  unfolding sr_fields sr_score_reference score_to_rating_def by auto

theorem analyze_statement_reference_witness:
  "reference_score ''good great best bad poor'' = 6 / 10 \<and>
   sr_label (analyze_statement ''good great best bad poor'') = ''NEUTRAL'' \<and>
   sr_rating (analyze_statement ''good great best bad poor'') = 4"
proof -
  have "sr_score (analyze_statement ''good great best bad poor'') = 6 / 10"
    by code_simp
  with analyze_statement_reference[of "''good great best bad poor''"] show ?thesis
    by simp
qed

text \<open>
  C4. For every text, with no precondition, the score of \<open>analyze_statement\<close> lies in
  \<open>[0, 1]\<close> and the rating is one of 1, 2, 3, 4, 5.
\<close>

theorem analyze_statement_score_rating_range:
  "0 \<le> sr_score (analyze_statement t) \<and> sr_score (analyze_statement t) \<le> 1 \<and>
   sr_rating (analyze_statement t) \<in> {1, 2, 3, 4, 5}"
  using score_range[of t] score_to_rating_range[of "sr_score (analyze_statement t)"]
  by (simp add: analyze_statement_def Let_def)

text \<open>
  C10. For every text the label and the rating agree: POSITIVE comes with 4 or 5 stars,
  NEGATIVE with 1 or 2, NEUTRAL with 3 or 4; a score of exactly 0.6 gives NEUTRAL with 4
  stars.
\<close>

theorem label_rating_consistent:
  "(sr_label (analyze_statement t) = ''POSITIVE'' \<longrightarrow> sr_rating (analyze_statement t) \<in> {4, 5}) \<and>
   (sr_label (analyze_statement t) = ''NEGATIVE'' \<longrightarrow> sr_rating (analyze_statement t) \<in> {1, 2}) \<and>
   (sr_label (analyze_statement t) = ''NEUTRAL'' \<longrightarrow> sr_rating (analyze_statement t) \<in> {3, 4}) \<and>
   (sr_score (analyze_statement t) = 6 / 10 \<longrightarrow>
      sr_label (analyze_statement t) = ''NEUTRAL'' \<and> sr_rating (analyze_statement t) = 4)"
  unfolding sr_fields score_to_rating_def by auto

theorem label_rating_consistent_witness:
  "sr_label (analyze_statement ''It is great'') = ''POSITIVE'' \<and>
   sr_rating (analyze_statement ''It is great'') \<in> {4, 5} \<and>
   sr_label (analyze_statement ''It has a terrible aftertaste and is overpriced'') = ''NEGATIVE'' \<and>
   sr_rating (analyze_statement ''It has a terrible aftertaste and is overpriced'') \<in> {1, 2} \<and>
   sr_label (analyze_statement ''It offers 18 flavors'') = ''NEUTRAL'' \<and>
   sr_rating (analyze_statement ''It offers 18 flavors'') \<in> {3, 4} \<and>
   sr_score (analyze_statement ''good great best bad poor'') = 6 / 10 \<and>
   sr_label (analyze_statement ''good great best bad poor'') = ''NEUTRAL'' \<and>
   sr_rating (analyze_statement ''good great best bad poor'') = 4"
proof -
  have a: "sr_label (analyze_statement ''It is great'') = ''POSITIVE''"
    by code_simp
  have b: "sr_label (analyze_statement ''It has a terrible aftertaste and is overpriced'') = ''NEGATIVE''"
    by code_simp
  have c: "sr_label (analyze_statement ''It offers 18 flavors'') = ''NEUTRAL''"
    by code_simp
  have d: "sr_score (analyze_statement ''good great best bad poor'') = 6 / 10"
    by code_simp
  from a b c d
    label_rating_consistent[of "''It is great''"]
    label_rating_consistent[of "''It has a terrible aftertaste and is overpriced''"]
    label_rating_consistent[of "''It offers 18 flavors''"]
    label_rating_consistent[of "''good great best bad poor''"]
  show ?thesis by simp
qed

lemma analyze_loop_map: "analyze_loop ss acc = acc @ map analyze_statement ss"
  by (induction ss arbitrary: acc) auto

lemma label_cases:
  "sr_label (analyze_statement t) = ''POSITIVE'' \<or> sr_label (analyze_statement t) = ''NEGATIVE'' \<or>
   sr_label (analyze_statement t) = ''NEUTRAL''"
  by (simp add: sr_fields)

lemma count_label_length: "count_label l rs = int (length (filter (\<lambda>r. sr_label r = l) rs))"
  by (simp add: count_label_def sum_list_triv)

lemma label_counts_sum:
  "count_label ''POSITIVE'' (map analyze_statement ss)
     + count_label ''NEGATIVE'' (map analyze_statement ss)
     + count_label ''NEUTRAL'' (map analyze_statement ss) = int (length ss)"
proof (induction ss)
  case Nil
  show ?case by (simp add: count_label_length)
next
  case (Cons s ss)
  from label_cases[of s] Cons show ?case
    by (auto simp: count_label_length)
qed

text \<open>
  C5. For every brand and every list of statements, the three label counts of
  \<open>analyze_brand_statements\<close> add up to the number of statements, which is also the length
  of the result's statement list.
\<close>

theorem brand_counts_sum:
  "bs_positive_count (analyze_brand_statements brand statements)
     + bs_negative_count (analyze_brand_statements brand statements)
     + bs_neutral_count (analyze_brand_statements brand statements) = int (length statements) \<and>
   length (bs_statements (analyze_brand_statements brand statements)) = length statements"
  using label_counts_sum[of statements]
  by (simp add: analyze_brand_statements_def analyze_loop_map Let_def)

section \<open>Properties of the analysis engine\<close>

lemma brand_loop_fst:
  "fst (brand_loop t brands S R) =
     S @ map (\<lambda>b. if extract_statements_about_brand t b = []
                   then \<lparr>bs_brand = b, bs_statements = [], bs_avg_score = 5 / 10, bs_avg_rating = 3,
                         bs_positive_count = 0, bs_negative_count = 0, bs_neutral_count = 0\<rparr>
                   else analyze_brand_statements b (extract_statements_about_brand t b)) brands"
  by (induction brands arbitrary: S R) (simp_all add: Let_def)

lemma brand_loop_snd:
  "snd (brand_loop t brands S R) =
     R @ map (\<lambda>b. if extract_statements_about_brand t b = []
                   then \<lparr>rr_brand = b, rr_avg_rating = 3, rr_avg_score = 5 / 10,
                         rr_total_statements = 0, rr_positive_percentage = 0,
                         rr_negative_percentage = 0, rr_neutral_percentage = 0,
                         rr_statements = []\<rparr>
                   else create_rating_summary
                          (analyze_brand_statements b (extract_statements_about_brand t b))) brands"
  by (induction brands arbitrary: S R) (simp_all add: Let_def)

lemma analyze_brand_statements_empty:
  "analyze_brand_statements brand [] =
     \<lparr>bs_brand = brand, bs_statements = [], bs_avg_score = 0, bs_avg_rating = 0,
      bs_positive_count = 0, bs_negative_count = 0, bs_neutral_count = 0\<rparr>"
  by (simp add: analyze_brand_statements_def)

text \<open>
  C3. The two zero-statement defaults differ. On an empty statement list
  \<open>analyze_brand_statements\<close> returns no statements, zero counts and averages 0.0. The
  per-brand loop of the orchestrator, for a brand whose extraction is empty, records the
  neutral sentiment (score 0.5, rating 3.0, zero counts, no statements) and the rating row
  with rating 3.0, score 0.5, no statements and percentages 0.0; these are not what the
  aggregator and the rating summary give on the empty list.
\<close>

theorem zero_statement_defaults:
  "analyze_brand_statements brand [] =
     \<lparr>bs_brand = brand, bs_statements = [], bs_avg_score = 0, bs_avg_rating = 0,
      bs_positive_count = 0, bs_negative_count = 0, bs_neutral_count = 0\<rparr> \<and>
   (i < length brands \<and> extract_statements_about_brand transcript (brands ! i) = [] \<longrightarrow>
      fst (brand_loop transcript brands [] []) ! i =
        \<lparr>bs_brand = brands ! i, bs_statements = [], bs_avg_score = 5 / 10, bs_avg_rating = 3,
         bs_positive_count = 0, bs_negative_count = 0, bs_neutral_count = 0\<rparr> \<and>
      snd (brand_loop transcript brands [] []) ! i =
        \<lparr>rr_brand = brands ! i, rr_avg_rating = 3, rr_avg_score = 5 / 10,
         rr_total_statements = 0, rr_positive_percentage = 0, rr_negative_percentage = 0,
         rr_neutral_percentage = 0, rr_statements = []\<rparr> \<and>
      fst (brand_loop transcript brands [] []) ! i \<noteq> analyze_brand_statements (brands ! i) [] \<and>
      snd (brand_loop transcript brands [] []) ! i \<noteq>
        create_rating_summary (analyze_brand_statements (brands ! i) []))"
  by (simp add: brand_loop_fst brand_loop_snd analyze_brand_statements_empty
      create_rating_summary_def)

theorem zero_statement_defaults_witness:
  "extract_statements_about_brand ''Kirkland is great. Isopure is bad.'' ''Datiz'' = [] \<and>
   fst (brand_loop ''Kirkland is great. Isopure is bad.'' [''Datiz'', ''Kirkland''] [] []) ! 0 =
     \<lparr>bs_brand = ''Datiz'', bs_statements = [], bs_avg_score = 5 / 10, bs_avg_rating = 3,
      bs_positive_count = 0, bs_negative_count = 0, bs_neutral_count = 0\<rparr> \<and>
   snd (brand_loop ''Kirkland is great. Isopure is bad.'' [''Datiz'', ''Kirkland''] [] []) ! 0 =
     \<lparr>rr_brand = ''Datiz'', rr_avg_rating = 3, rr_avg_score = 5 / 10,
      rr_total_statements = 0, rr_positive_percentage = 0, rr_negative_percentage = 0,
      rr_neutral_percentage = 0, rr_statements = []\<rparr>"
proof -
  have e: "extract_statements_about_brand ''Kirkland is great. Isopure is bad.'' ''Datiz'' = []"
    by code_simp
  with zero_statement_defaults[of _ 0 "[''Datiz'', ''Kirkland'']" "''Kirkland is great. Isopure is bad.''"]
  show ?thesis by simp
qed

section \<open>Properties of the statement extractor\<close>

lemma split_from_plain:
  "\<forall>c \<in> set p. \<not> is_terminator c \<Longrightarrow> split_from cur p = [cur @ p]"
  by (induction p arbitrary: cur) auto

lemma split_from_piece:
  "\<forall>c \<in> set p. \<not> is_terminator c \<Longrightarrow> is_terminator d \<Longrightarrow>
   split_from cur (p @ d # s) = (cur @ p) # split_from [] (dropWhile is_terminator s)"
  by (induction p arbitrary: cur) auto

lemma re_split_plain: "\<forall>c \<in> set p. \<not> is_terminator c \<Longrightarrow> re_split p = [p]"
  by (simp add: re_split_def split_from_plain)

lemma re_split_piece:
  assumes "\<forall>c \<in> set p. \<not> is_terminator c" "run \<noteq> []" "\<forall>c \<in> set run. is_terminator c"
    "rest = [] \<or> \<not> is_terminator (hd rest)"
  shows "re_split (p @ run @ rest) = p # re_split rest"
proof -
  from assms(2) obtain d ds where run: "run = d # ds" by (cases run) auto
  with assms(3) have d: "is_terminator d" and ds: "\<forall>c \<in> set ds. is_terminator c" by auto
  from assms(4) have "dropWhile is_terminator rest = rest"
    by (cases rest) auto
  with ds have "dropWhile is_terminator (ds @ rest) = rest"
    by (simp add: dropWhile_append)
  with split_from_piece[OF assms(1) d, of "[]" "ds @ rest"] run show ?thesis
    by (simp add: re_split_def)
qed

text \<open>The pieces of a text are determined by the relation, and \<open>re_split\<close> computes them.\<close>

lemma split_on_runs_unique: "split_on_runs t ps \<Longrightarrow> ps = re_split t"
  by (induction rule: split_on_runs.induct) (simp_all add: re_split_plain re_split_piece)

lemma split_on_runs_re_split: "split_on_runs t (re_split t)"
proof (induction "length t" arbitrary: t rule: less_induct)
  case less
  define p where "p = takeWhile (\<lambda>c. \<not> is_terminator c) t"
  define r where "r = dropWhile (\<lambda>c. \<not> is_terminator c) t"
  define run where "run = takeWhile is_terminator r"
  define rest where "rest = dropWhile is_terminator r"
  have t: "t = p @ r" and r: "r = run @ rest"
    by (simp_all add: p_def r_def run_def rest_def)
  have p: "\<forall>c \<in> set p. \<not> is_terminator c"
    by (auto simp: p_def dest: set_takeWhileD)
  show ?case
  proof (cases "r = []")
    case True
    with t p show ?thesis
      by (simp add: re_split_plain split_on_runs.last_piece)
  next
    case False
    then have "is_terminator (hd r)"
      unfolding r_def by (metis hd_dropWhile)
    with False have run_ne: "run \<noteq> []"
      by (cases r) (auto simp: run_def)
    have run: "\<forall>c \<in> set run. is_terminator c"
      by (auto simp: run_def dest: set_takeWhileD)
    have rest: "rest = [] \<or> \<not> is_terminator (hd rest)"
      unfolding rest_def by (metis hd_dropWhile)
    from run_ne have "length rest < length t"
      by (simp add: t r)
    then have "split_on_runs rest (re_split rest)"
      by (rule less)
    with p run_ne run rest have "split_on_runs (p @ run @ rest) (p # re_split rest)"
      by (rule split_on_runs.piece_run)
    with re_split_piece[OF p run_ne run rest] show ?thesis
      by (simp add: t r)
  qed
qed

lemma extract_loop_filter:
  "extract_loop b ss acc =
     acc @ map strip (filter (\<lambda>s. sublist b (strip (lower s))) ss)"
  by (induction ss arbitrary: acc) (simp_all add: str_in_sublist Let_def)

text \<open>
  C7. For every transcript and brand name, \<open>extract_statements_about_brand\<close> splits the
  transcript on runs of \<open>.\<close>, \<open>!\<close>, \<open>?\<close> and returns, in transcript order, the trimmed
  sentences in their original casing whose lower-cased trimmed form contains the
  lower-cased trimmed brand name as a substring.
\<close>

theorem extract_statements_spec:
  "split_on_runs t (re_split t) \<and>
   extract_statements_about_brand t brand =
     map strip (filter (\<lambda>s. sublist (strip (lower brand)) (strip (lower s))) (re_split t))"
  by (simp add: split_on_runs_re_split extract_statements_about_brand_def extract_loop_filter)

theorem extract_statements_spec_witness:
  "split_on_runs ''Kirkland is great. I love KIRKLAND?! Isopure is bad''
     [''Kirkland is great'', '' I love KIRKLAND'', '' Isopure is bad''] \<and>
   extract_statements_about_brand ''Kirkland is great. I love KIRKLAND?! Isopure is bad'' '' kirkland ''
     = [''Kirkland is great'', ''I love KIRKLAND'']"
proof -
  have r: "re_split ''Kirkland is great. I love KIRKLAND?! Isopure is bad''
             = [''Kirkland is great'', '' I love KIRKLAND'', '' Isopure is bad'']"
    by code_simp
  have e: "extract_statements_about_brand ''Kirkland is great. I love KIRKLAND?! Isopure is bad''
             '' kirkland '' = [''Kirkland is great'', ''I love KIRKLAND'']"
    by code_simp
  have "split_on_runs ''Kirkland is great. I love KIRKLAND?! Isopure is bad''
          (re_split ''Kirkland is great. I love KIRKLAND?! Isopure is bad'')"
    using extract_statements_spec[of "''Kirkland is great. I love KIRKLAND?! Isopure is bad''" "'' kirkland ''"]
    by (rule conjunct1)
  then show ?thesis
    unfolding r using e by (rule conjI)
qed

section \<open>Properties of the brand segmenter\<close>

lemma first_below_price:
  "first_below v price_thresholds =
     Some (if v \<le> 90 / 100 then P_BUDGET else if v \<le> 120 / 100 then P_MID_RANGE else P_PREMIUM)"
  by (simp add: price_thresholds_def)

lemma first_below_quality:
  "first_below r quality_thresholds =
     Some (if r \<le> 4 then Q_BASIC else if r \<le> 45 / 10 then Q_STANDARD else Q_PREMIUM)"
  by (simp add: quality_thresholds_def)

text \<open>
  C2. The price category is MID_RANGE for an unknown price, else BUDGET up to 0.90,
  MID_RANGE up to 1.20 and PREMIUM above; the quality category is BASIC up to 4.0,
  STANDARD up to 4.5 and PREMIUM above. Price 0.90 is BUDGET, 0.901 is MID_RANGE, rating
  4.5 is STANDARD and 4.501 is PREMIUM.
\<close>

theorem categorize_thresholds:
  "categorize_price None = P_MID_RANGE \<and>
   categorize_price (Some v) =
     (if v \<le> 90 / 100 then P_BUDGET else if v \<le> 120 / 100 then P_MID_RANGE else P_PREMIUM) \<and>
   categorize_quality r =
     (if r \<le> 4 then Q_BASIC else if r \<le> 45 / 10 then Q_STANDARD else Q_PREMIUM) \<and>
   categorize_price (Some (90 / 100)) = P_BUDGET \<and>
   categorize_price (Some (901 / 1000)) = P_MID_RANGE \<and>
   categorize_quality (45 / 10) = Q_STANDARD \<and>
   categorize_quality (4501 / 1000) = Q_PREMIUM"
  by (simp add: categorize_price_def categorize_quality_def first_below_price first_below_quality)

section \<open>Properties of the insight generator\<close>

text \<open>
  C9. On an empty segment list \<open>generate_comparative_insights\<close> returns the four best-of
  fields as \<open>None\<close>, the two brand lists empty and the empty string as summary.
\<close>

theorem comparative_insights_empty:
  "generate_comparative_insights [] =
     \<lparr>ci_best_value = None, ci_highest_quality = None, ci_most_affordable = None,
      ci_premium_choice = None, ci_clean_ingredients = [], ci_third_party_tested = [],
      ci_comparison_summary = []\<rparr>"
  by (simp add: generate_comparative_insights_def)

lemma unique_loop_dedup:
  "unique_loop xs seen acc = acc @ dedup_first (filter (\<lambda>x. x \<notin> seen) xs)"
proof (induction xs arbitrary: seen acc)
  case Nil
  show ?case by simp
next
  case (Cons x xs)
  have "removeAll x (filter (\<lambda>y. y \<notin> seen) xs) = filter (\<lambda>y. y \<notin> insert x seen) xs"
    by (induction xs) auto
  with Cons show ?case by simp
qed

lemma set_dedup_first: "set (dedup_first xs) = set xs"
  by (induction xs rule: dedup_first.induct) auto

lemma distinct_dedup_first: "distinct (dedup_first xs)"
  by (induction xs rule: dedup_first.induct) (auto simp: set_dedup_first)

lemma target_audience_dedup:
  "identify_target_audience segment = dedup_first (audience_candidates segment)"
  by (simp add: identify_target_audience_def unique_loop_dedup)

lemma distinct_weaknesses: "distinct (identify_weaknesses segment sd)"
  by (simp add: identify_weaknesses_def)

lemma distinct_recommendations: "distinct (generate_recommendations segment sd)"
  by (simp add: generate_recommendations_def)

lemma strengths_split:
  "identify_strengths segment sd =
     identify_strengths (segment\<lparr>seg_features := []\<rparr>) sd @ seg_features segment"
  by (simp add: identify_strengths_def)

lemma distinct_strength_rules: "distinct (identify_strengths (segment\<lparr>seg_features := []\<rparr>) sd)"
  by (simp add: identify_strengths_def)

text \<open>
  C8 (amended). For every segment and optional sentiment data, the weaknesses, the
  recommendations and the target audience of \<open>generate_brand_insight\<close> are duplicate-free,
  and the target audience is the candidate list de-duplicated in first-seen order. The
  key features are the segment's features as they are, and the strengths are the rule
  phrases followed by the segment's features as they are: the strengths are
  duplicate-free exactly when the features are duplicate-free and contain none of the rule
  phrases emitted for the segment.
\<close>

theorem brand_insight_duplicates:
  "distinct (bi_weaknesses (generate_brand_insight segment sd)) \<and>
   distinct (bi_recommendations (generate_brand_insight segment sd)) \<and>
   distinct (bi_target_audience (generate_brand_insight segment sd)) \<and>
   bi_target_audience (generate_brand_insight segment sd) = dedup_first (audience_candidates segment) \<and>
   bi_key_features (generate_brand_insight segment sd) = seg_features segment \<and>
   bi_strengths (generate_brand_insight segment sd) =
     identify_strengths (segment\<lparr>seg_features := []\<rparr>) sd @ seg_features segment \<and>
   (distinct (bi_strengths (generate_brand_insight segment sd)) \<longleftrightarrow>
      distinct (seg_features segment) \<and>
      set (identify_strengths (segment\<lparr>seg_features := []\<rparr>) sd) \<inter> set (seg_features segment) = {})"
proof -
  have "distinct (identify_strengths segment sd) \<longleftrightarrow>
      distinct (seg_features segment) \<and>
      set (identify_strengths (segment\<lparr>seg_features := []\<rparr>) sd) \<inter> set (seg_features segment) = {}"
    using distinct_strength_rules[of segment sd]
    by (subst strengths_split) simp
  then show ?thesis
    using strengths_split[of segment sd]
    by (simp add: generate_brand_insight_def distinct_weaknesses distinct_recommendations
        target_audience_dedup distinct_dedup_first)
qed

theorem brand_insight_duplicates_witness:
  "distinct (bi_strengths (generate_brand_insight
     \<lparr>seg_brand = ''Accent'', seg_price_category = P_BUDGET, seg_quality_category = Q_STANDARD,
      seg_avg_rating = 42 / 10, seg_price_per_serving = Some (88 / 100),
      seg_protein_content = Some 25, seg_third_party_tested = True,
      seg_artificial_sweeteners = False,
      seg_features = [''Clean ingredients'', ''No artificial sweeteners'', ''Athlete tested'']\<rparr> None))"
proof -
  let ?s = "\<lparr>seg_brand = ''Accent'', seg_price_category = P_BUDGET, seg_quality_category = Q_STANDARD,
      seg_avg_rating = 42 / 10, seg_price_per_serving = Some (88 / 100),
      seg_protein_content = Some 25, seg_third_party_tested = True,
      seg_artificial_sweeteners = False,
      seg_features = [''Clean ingredients'', ''No artificial sweeteners'', ''Athlete tested'']\<rparr>"
  have "distinct (seg_features ?s) \<and>
      set (identify_strengths (?s\<lparr>seg_features := []\<rparr>) None) \<inter> set (seg_features ?s) = {}"
    by (simp add: identify_strengths_def and_then_def)
  with brand_insight_duplicates[of ?s None] show ?thesis
    by blast
qed

theorem brand_insight_duplicates_counterexample:
  "\<not> (distinct (bi_strengths (generate_brand_insight
          \<lparr>seg_brand = ''Acme'', seg_price_category = P_MID_RANGE, seg_quality_category = Q_BASIC,
           seg_avg_rating = 3, seg_price_per_serving = None, seg_protein_content = None,
           seg_third_party_tested = False, seg_artificial_sweeteners = True,
           seg_features = [''Vegan'', ''Vegan'']\<rparr> None)) \<and>
       distinct (bi_weaknesses (generate_brand_insight
          \<lparr>seg_brand = ''Acme'', seg_price_category = P_MID_RANGE, seg_quality_category = Q_BASIC,
           seg_avg_rating = 3, seg_price_per_serving = None, seg_protein_content = None,
           seg_third_party_tested = False, seg_artificial_sweeteners = True,
           seg_features = [''Vegan'', ''Vegan'']\<rparr> None)) \<and>
       distinct (bi_recommendations (generate_brand_insight
          \<lparr>seg_brand = ''Acme'', seg_price_category = P_MID_RANGE, seg_quality_category = Q_BASIC,
           seg_avg_rating = 3, seg_price_per_serving = None, seg_protein_content = None,
           seg_third_party_tested = False, seg_artificial_sweeteners = True,
           seg_features = [''Vegan'', ''Vegan'']\<rparr> None)) \<and>
       distinct (bi_key_features (generate_brand_insight
          \<lparr>seg_brand = ''Acme'', seg_price_category = P_MID_RANGE, seg_quality_category = Q_BASIC,
           seg_avg_rating = 3, seg_price_per_serving = None, seg_protein_content = None,
           seg_third_party_tested = False, seg_artificial_sweeteners = True,
           seg_features = [''Vegan'', ''Vegan'']\<rparr> None)) \<and>
       distinct (bi_target_audience (generate_brand_insight
          \<lparr>seg_brand = ''Acme'', seg_price_category = P_MID_RANGE, seg_quality_category = Q_BASIC,
           seg_avg_rating = 3, seg_price_per_serving = None, seg_protein_content = None,
           seg_third_party_tested = False, seg_artificial_sweeteners = True,
           seg_features = [''Vegan'', ''Vegan'']\<rparr> None)))"
  by (simp add: generate_brand_insight_def)

text \<open>
  \<open>min\<close> and \<open>max\<close> with a key return the first element, in list order, whose key is
  least (greatest): every element before it has a strictly larger (smaller) key, every
  element after it a key at least (at most) as large.
\<close>

lemma min_from_first:
  "\<exists>pre post. b # xs = pre @ min_from key b xs # post \<and>
     (\<forall>y \<in> set pre. key (min_from key b xs) < key y) \<and>
     (\<forall>y \<in> set post. key (min_from key b xs) \<le> key y)"
proof (induction xs arbitrary: b)
  case Nil
  have "[b] = [] @ min_from key b [] # []" by simp
  then show ?case by (metis empty_iff empty_set)
next
  case (Cons x xs)
  define b' where "b' = (if key x < key b then x else b)"
  define m where "m = min_from key b' xs"
  have m: "min_from key b (x # xs) = m"
    by (simp add: m_def b'_def)
  from Cons[of b'] obtain pre post where
    dec: "b' # xs = pre @ m # post" and
    pre: "\<forall>y \<in> set pre. key m < key y" and
    post: "\<forall>y \<in> set post. key m \<le> key y"
    unfolding m_def by blast
  have le: "key m \<le> key b'"
  proof (cases pre)
    case Nil
    with dec show ?thesis by simp
  next
    case (Cons p ps)
    with dec pre show ?thesis by auto
  qed
  show ?case
  proof (cases "key x < key b")
    case True
    then have "b' = x" by (simp add: b'_def)
    with dec have "b # x # xs = (b # pre) @ m # post" by simp
    moreover from le True \<open>b' = x\<close> have "key m < key b" by simp
    ultimately show ?thesis
      unfolding m using pre post by (metis set_ConsD)
  next
    case False
    then have b': "b' = b" by (simp add: b'_def)
    show ?thesis
    proof (cases pre)
      case Nil
      with dec b' have mb: "m = b" and px: "post = xs" by simp_all
      have "b # x # xs = [] @ m # (x # xs)" by (simp add: mb)
      moreover from False post mb px have "\<forall>y \<in> set (x # xs). key m \<le> key y" by auto
      ultimately show ?thesis
        unfolding m by (metis empty_iff empty_set)
    next
      case (Cons p ps)
      with dec b' have xs: "xs = ps @ m # post" and p: "p = b" by simp_all
      from pre Cons p have "key m < key b" by simp
      with False have "key m < key x" by simp
      with pre Cons p have "\<forall>y \<in> set (b # x # ps). key m < key y" by auto
      moreover have "b # x # xs = (b # x # ps) @ m # post" by (simp add: xs)
      ultimately show ?thesis
        unfolding m using post by blast
    qed
  qed
qed

lemma max_from_first:
  "\<exists>pre post. b # xs = pre @ max_from key b xs # post \<and>
     (\<forall>y \<in> set pre. key y < key (max_from key b xs)) \<and>
     (\<forall>y \<in> set post. key y \<le> key (max_from key b xs))"
proof (induction xs arbitrary: b)
  case Nil
  have "[b] = [] @ max_from key b [] # []" by simp
  then show ?case by (metis empty_iff empty_set)
next
  case (Cons x xs)
  define b' where "b' = (if key x > key b then x else b)"
  define m where "m = max_from key b' xs"
  have m: "max_from key b (x # xs) = m"
    by (simp add: m_def b'_def)
  from Cons[of b'] obtain pre post where
    dec: "b' # xs = pre @ m # post" and
    pre: "\<forall>y \<in> set pre. key y < key m" and
    post: "\<forall>y \<in> set post. key y \<le> key m"
    unfolding m_def by blast
  have le: "key b' \<le> key m"
  proof (cases pre)
    case Nil
    with dec show ?thesis by simp
  next
    case (Cons p ps)
    with dec pre show ?thesis by auto
  qed
  show ?case
  proof (cases "key x > key b")
    case True
    then have "b' = x" by (simp add: b'_def)
    with dec have "b # x # xs = (b # pre) @ m # post" by simp
    moreover from le True \<open>b' = x\<close> have "key b < key m" by simp
    ultimately show ?thesis
      unfolding m using pre post by (metis set_ConsD)
  next
    case False
    then have b': "b' = b" by (simp add: b'_def)
    show ?thesis
    proof (cases pre)
      case Nil
      with dec b' have mb: "m = b" and px: "post = xs" by simp_all
      have "b # x # xs = [] @ m # (x # xs)" by (simp add: mb)
      moreover from False post mb px have "\<forall>y \<in> set (x # xs). key y \<le> key m" by auto
      ultimately show ?thesis
        unfolding m by (metis empty_iff empty_set)
    next
      case (Cons p ps)
      with dec b' have xs: "xs = ps @ m # post" and p: "p = b" by simp_all
      from pre Cons p have "key b < key m" by simp
      with False have "key x < key m" by simp
      with pre Cons p have "\<forall>y \<in> set (b # x # ps). key y < key m" by auto
      moreover have "b # x # xs = (b # x # ps) @ m # post" by (simp add: xs)
      ultimately show ?thesis
        unfolding m using post by blast
    qed
  qed
qed

lemma py_min_first:
  assumes "xs \<noteq> []"
  shows "\<exists>pre m post. py_min key xs = Some m \<and> xs = pre @ m # post \<and>
     (\<forall>y \<in> set pre. key m < key y) \<and> (\<forall>y \<in> set post. key m \<le> key y)"
proof -
  from assms obtain b bs where "xs = b # bs" by (cases xs) auto
  with min_from_first[of b bs key] show ?thesis by auto
qed

lemma py_max_first:
  assumes "xs \<noteq> []"
  shows "\<exists>pre m post. py_max key xs = Some m \<and> xs = pre @ m # post \<and>
     (\<forall>y \<in> set pre. key y < key m) \<and> (\<forall>y \<in> set post. key y \<le> key m)"
proof -
  from assms obtain b bs where "xs = b # bs" by (cases xs) auto
  with max_from_first[of b bs key] show ?thesis by auto
qed

lemma comparative_insights_fields:
  assumes "segments \<noteq> []"
  shows "ci_best_value (generate_comparative_insights segments) =
           py_min price_key (filter (\<lambda>s. seg_quality_category s \<in> {Q_STANDARD, Q_PREMIUM}) segments)"
    and "ci_highest_quality (generate_comparative_insights segments) = py_max seg_avg_rating segments"
    and "ci_most_affordable (generate_comparative_insights segments) = py_min price_key segments"
  using assms by (simp_all add: generate_comparative_insights_def Let_def)

lemma price_key_known:
  "seg_price_per_serving s \<noteq> Some 0 \<Longrightarrow>
   price_key s = (case seg_price_per_serving s of None \<Rightarrow> PosInf | Some price \<Rightarrow> Fin price)"
  by (simp add: price_key_def split: option.splits)

text \<open>
  What the three selections are on a non-empty list, in terms of the sort key: with no
  price equal to zero the key is the price, infinity standing for an unknown one.
\<close>

lemma comparative_insights_selection:
  assumes "segments \<noteq> []"
  shows "\<exists>pre m post. ci_highest_quality (generate_comparative_insights segments) = Some m \<and>
           segments = pre @ m # post \<and>
           (\<forall>y \<in> set pre. seg_avg_rating y < seg_avg_rating m) \<and>
           (\<forall>y \<in> set post. seg_avg_rating y \<le> seg_avg_rating m)"
    and "\<exists>pre m post. ci_most_affordable (generate_comparative_insights segments) = Some m \<and>
           segments = pre @ m # post \<and>
           (\<forall>y \<in> set pre. price_key m < price_key y) \<and>
           (\<forall>y \<in> set post. price_key m \<le> price_key y)"
    and "filter (\<lambda>s. seg_quality_category s \<in> {Q_STANDARD, Q_PREMIUM}) segments = [] \<Longrightarrow>
         ci_best_value (generate_comparative_insights segments) = None"
    and "filter (\<lambda>s. seg_quality_category s \<in> {Q_STANDARD, Q_PREMIUM}) segments \<noteq> [] \<Longrightarrow>
         \<exists>pre m post. ci_best_value (generate_comparative_insights segments) = Some m \<and>
           filter (\<lambda>s. seg_quality_category s \<in> {Q_STANDARD, Q_PREMIUM}) segments = pre @ m # post \<and>
           (\<forall>y \<in> set pre. price_key m < price_key y) \<and>
           (\<forall>y \<in> set post. price_key m \<le> price_key y)"
proof -
  show "\<exists>pre m post. ci_highest_quality (generate_comparative_insights segments) = Some m \<and>
           segments = pre @ m # post \<and>
           (\<forall>y \<in> set pre. seg_avg_rating y < seg_avg_rating m) \<and>
           (\<forall>y \<in> set post. seg_avg_rating y \<le> seg_avg_rating m)"
    unfolding comparative_insights_fields(2)[OF assms] using assms by (rule py_max_first)
  show "\<exists>pre m post. ci_most_affordable (generate_comparative_insights segments) = Some m \<and>
           segments = pre @ m # post \<and>
           (\<forall>y \<in> set pre. price_key m < price_key y) \<and>
           (\<forall>y \<in> set post. price_key m \<le> price_key y)"
    unfolding comparative_insights_fields(3)[OF assms] using assms by (rule py_min_first)
  show "filter (\<lambda>s. seg_quality_category s \<in> {Q_STANDARD, Q_PREMIUM}) segments = [] \<Longrightarrow>
         ci_best_value (generate_comparative_insights segments) = None"
    unfolding comparative_insights_fields(1)[OF assms] by simp
  show "filter (\<lambda>s. seg_quality_category s \<in> {Q_STANDARD, Q_PREMIUM}) segments \<noteq> [] \<Longrightarrow>
         \<exists>pre m post. ci_best_value (generate_comparative_insights segments) = Some m \<and>
           filter (\<lambda>s. seg_quality_category s \<in> {Q_STANDARD, Q_PREMIUM}) segments = pre @ m # post \<and>
           (\<forall>y \<in> set pre. price_key m < price_key y) \<and>
           (\<forall>y \<in> set post. price_key m \<le> price_key y)"
    unfolding comparative_insights_fields(1)[OF assms] by (rule py_min_first)
qed

text \<open>
  C6 at a price of zero. Of two STANDARD segments, the first priced 0.0 and the second
  priced 1.0, \<open>generate_comparative_insights\<close> selects the second one both as best value
  and as most affordable: the sort key turns the price 0.0 into infinity, as it does an
  unknown price.
\<close>

theorem comparative_insights_zero_price:
  "ci_best_value (generate_comparative_insights
     [\<lparr>seg_brand = ''Free'', seg_price_category = P_BUDGET, seg_quality_category = Q_STANDARD,
       seg_avg_rating = 42 / 10, seg_price_per_serving = Some 0, seg_protein_content = None,
       seg_third_party_tested = False, seg_artificial_sweeteners = False, seg_features = []\<rparr>,
      \<lparr>seg_brand = ''Paid'', seg_price_category = P_MID_RANGE, seg_quality_category = Q_STANDARD,
       seg_avg_rating = 42 / 10, seg_price_per_serving = Some 1, seg_protein_content = None,
       seg_third_party_tested = False, seg_artificial_sweeteners = False, seg_features = []\<rparr>]) =
   Some \<lparr>seg_brand = ''Paid'', seg_price_category = P_MID_RANGE, seg_quality_category = Q_STANDARD,
       seg_avg_rating = 42 / 10, seg_price_per_serving = Some 1, seg_protein_content = None,
       seg_third_party_tested = False, seg_artificial_sweeteners = False, seg_features = []\<rparr> \<and>
   ci_most_affordable (generate_comparative_insights
     [\<lparr>seg_brand = ''Free'', seg_price_category = P_BUDGET, seg_quality_category = Q_STANDARD,
       seg_avg_rating = 42 / 10, seg_price_per_serving = Some 0, seg_protein_content = None,
       seg_third_party_tested = False, seg_artificial_sweeteners = False, seg_features = []\<rparr>,
      \<lparr>seg_brand = ''Paid'', seg_price_category = P_MID_RANGE, seg_quality_category = Q_STANDARD,
       seg_avg_rating = 42 / 10, seg_price_per_serving = Some 1, seg_protein_content = None,
       seg_third_party_tested = False, seg_artificial_sweeteners = False, seg_features = []\<rparr>]) =
   Some \<lparr>seg_brand = ''Paid'', seg_price_category = P_MID_RANGE, seg_quality_category = Q_STANDARD,
       seg_avg_rating = 42 / 10, seg_price_per_serving = Some 1, seg_protein_content = None,
       seg_third_party_tested = False, seg_artificial_sweeteners = False, seg_features = []\<rparr>"
  by (simp add: generate_comparative_insights_def Let_def price_key_def less_ext_rat_def)

end
